theory Spec2Isabelle
  imports Main
begin

section \<open>Python values, errors and the outside world\<close>

text \<open>
  The two scripts \<^verbatim>\<open>scripts/gcal.py\<close> and \<^verbatim>\<open>scripts/gmail.py\<close> are glue over
  the Google SDK. Everything they handle is decoded JSON: the token file, calendar
  events, mail messages. A JSON document is modelled by the datatype below; a Python
  \<^verbatim>\<open>dict\<close> is an association list in insertion order (floats do not occur in the
  fields the scripts touch and are left out).
\<close>

datatype json =
    JNull
  | JBool bool
  | JInt int
  | JStr string
  | JList "json list"
  | JDict "(string \<times> json) list"

text \<open>
  Every \<^verbatim>\<open>raise\<close> and every \<^verbatim>\<open>sys.exit\<close> of the source is a value of
  \<open>error\<close>. \<open>SystemExit n\<close> is \<^verbatim>\<open>sys.exit(n)\<close>; the others are exceptions that no
  handler of the scripts catches, so they end the process with a traceback.
\<close>

datatype error =
    SystemExit int
  | KeyError string
  | TypeError
  | AttributeError
  | ValueError
  | JSONDecodeError
  | RefreshError
  | HttpError
  | DecodeError
  | OverflowError

text \<open>Truth value of a Python object, as \<^verbatim>\<open>if x:\<close> and \<^verbatim>\<open>x or y\<close> test it.\<close>

fun truthy :: "json \<Rightarrow> bool" where
  "truthy JNull = False"
| "truthy (JBool b) = b"
| "truthy (JInt n) = (n \<noteq> 0)"
| "truthy (JStr s) = (s \<noteq> [])"
| "truthy (JList xs) = (xs \<noteq> [])"
| "truthy (JDict kvs) = (kvs \<noteq> [])"

text \<open>\<^verbatim>\<open>d.get(k, default)\<close>: only a dict has the method.\<close>

fun py_get :: "json \<Rightarrow> string \<Rightarrow> json \<Rightarrow> error + json" where
  "py_get (JDict kvs) k dflt = Inr (case map_of kvs k of None \<Rightarrow> dflt | Some v \<Rightarrow> v)"
| "py_get _ k dflt = Inl AttributeError"

text \<open>\<^verbatim>\<open>d[k]\<close> with a string key: \<^verbatim>\<open>KeyError\<close> on a dict without the key,
  \<^verbatim>\<open>TypeError\<close> on anything that is not a dict.\<close>

fun py_getitem :: "json \<Rightarrow> string \<Rightarrow> error + json" where
  "py_getitem (JDict kvs) k = (case map_of kvs k of None \<Rightarrow> Inl (KeyError k) | Some v \<Rightarrow> Inr v)"
| "py_getitem _ k = Inl TypeError"

text \<open>\<^verbatim>\<open>d[k] = v\<close> on a dict: an existing key keeps its position, a new key goes last.\<close>

fun dict_set :: "(string \<times> json) list \<Rightarrow> string \<Rightarrow> json \<Rightarrow> (string \<times> json) list" where
  "dict_set [] k v = [(k, v)]"
| "dict_set ((k', v') # kvs) k v =
     (if k' = k then (k, v) # kvs else (k', v') # dict_set kvs k v)"

fun py_setitem :: "json \<Rightarrow> string \<Rightarrow> json \<Rightarrow> error + json" where
  "py_setitem (JDict kvs) k v = Inr (JDict (dict_set kvs k v))"
| "py_setitem _ k v = Inl TypeError"

text \<open>\<^verbatim>\<open>needle in s\<close> on two strings is the substring test.\<close>

definition str_contains :: "string \<Rightarrow> string \<Rightarrow> bool" where
  "str_contains needle s =
     list_ex (\<lambda>i. take (length needle) (drop i s) = needle) [0 ..< Suc (length s)]"

text \<open>\<^verbatim>\<open>k in x\<close> for a string \<open>k\<close>: key membership on a dict, element membership
  on a list, substring on a string, \<^verbatim>\<open>TypeError\<close> otherwise.\<close>

fun py_contains :: "string \<Rightarrow> json \<Rightarrow> error + bool" where
  "py_contains k (JDict kvs) = Inr (map_of kvs k \<noteq> None)"
| "py_contains k (JList xs) = Inr (JStr k \<in> set xs)"
| "py_contains k (JStr s) = Inr (str_contains k s)"
| "py_contains k _ = Inl TypeError"

subsection \<open>Credentials and the SDK\<close>

text \<open>
  \<^verbatim>\<open>google.oauth2.credentials.Credentials\<close> as the scripts construct it: five
  keyword arguments, each whatever \<^verbatim>\<open>token_data.get(...)\<close> returned (\<open>JNull\<close> is
  \<^verbatim>\<open>None\<close>).
\<close>

record credentials =
  token :: json
  refresh_token :: json
  token_uri :: json
  client_id :: json
  client_secret :: json

text \<open>
  Two views of a Python \<^verbatim>\<open>datetime\<close>. \<^verbatim>\<open>strptime\<close> with the format
  \<^verbatim>\<open>"%Y-%m-%d %H:%M"\<close> fills the five calendar fields below and leaves seconds and
  microseconds zero. A timestamp parsed by \<^verbatim>\<open>fromisoformat\<close> is kept as the count of
  microseconds its wall clock shows since 0001-01-01T00:00:00, together with its UTC
  offset in microseconds (\<open>None\<close> for a naive value); the instant it denotes is the
  wall-clock count minus the offset.
\<close>

record datetime =
  dt_year :: nat
  dt_month :: nat
  dt_day :: nat
  dt_hour :: nat
  dt_minute :: nat

record timestamp =
  wall :: int
  utcoff :: "int option"

text \<open>
  The SDK, the provider and the time-zone database are not part of the repository. What
  the scripts ask of them is a parameter of the model: the property
  \<^verbatim>\<open>creds.expired\<close>, the call \<^verbatim>\<open>creds.refresh(Request())\<close> (which either raises or
  leaves the credential object updated), the API requests the modelled commands execute,
  the base64 and UTF-8 decoding of a body, the parser \<^verbatim>\<open>datetime.fromisoformat\<close>, and
  the offsets of a time zone in seconds: for a wall-clock time (\<^verbatim>\<open>utcoffset\<close>), at a UTC
  instant (\<^verbatim>\<open>fromutc\<close>), and of the system's own zone for a naive wall-clock time.
\<close>

record sdk =
  expired :: "credentials \<Rightarrow> bool"
  refresh :: "credentials \<Rightarrow> error + credentials"
  events_insert :: "string \<Rightarrow> json \<Rightarrow> error + json"
  messages_list :: "string \<Rightarrow> int \<Rightarrow> error + json"
  messages_get :: "json \<Rightarrow> string \<Rightarrow> error + json"
  b64decode_utf8 :: "json \<Rightarrow> error + string"
  zone_utcoffset :: "string \<Rightarrow> datetime \<Rightarrow> int"
  fromisoformat :: "string \<Rightarrow> error + timestamp"
  zone_offset_at :: "string \<Rightarrow> int \<Rightarrow> int"
  system_utcoffset :: "int \<Rightarrow> int"

text \<open>The object \<^verbatim>\<open>build(name, version, credentials=creds)\<close> returns.\<close>

record service =
  api_name :: string
  api_version :: string
  service_creds :: credentials

definition build :: "string \<Rightarrow> string \<Rightarrow> credentials \<Rightarrow> service" where
  "build name version creds =
     \<lparr>api_name = name, api_version = version, service_creds = creds\<rparr>"

subsection \<open>Files, output and the trace of effects\<close>

text \<open>
  A file holds text. \<^verbatim>\<open>json.loads\<close> either decodes it or raises; \<^verbatim>\<open>json.dumps\<close>
  of a decoded document gives text that decodes to the same document, so a file is
  modelled by the document its text denotes, or by \<open>NotJson\<close>.
\<close>

datatype file_text = JsonText json | NotJson

fun json_loads :: "file_text \<Rightarrow> error + json" where
  "json_loads (JsonText j) = Inr j"
| "json_loads NotJson = Inl JSONDecodeError"

definition json_dumps :: "json \<Rightarrow> file_text" where
  "json_dumps j = JsonText j"

text \<open>A piece of an f-string: literal text, a formatted Python value, or the message
  of a caught exception.\<close>

datatype frag = Lit string | Val json | Exc error

datatype effect =
    Stderr "frag list"
  | Stdout "frag list"
  | RefreshCall credentials
  | WriteText string file_text
  | ApiInsert string json
  | ApiList string int
  | ApiGet json string

record world =
  files :: "string \<Rightarrow> file_text option"
  trace :: "effect list"

definition emit :: "effect \<Rightarrow> world \<Rightarrow> world" where
  "emit e w = w\<lparr>trace := trace w @ [e]\<rparr>"

definition write_text :: "string \<Rightarrow> file_text \<Rightarrow> world \<Rightarrow> world" where
  "write_text path txt w =
     emit (WriteText path txt) (w\<lparr>files := (files w)(path \<mapsto> txt)\<rparr>)"

fun is_refresh :: "effect \<Rightarrow> bool" where
  "is_refresh (RefreshCall _) = True"
| "is_refresh _ = False"

fun is_write :: "effect \<Rightarrow> bool" where
  "is_write (WriteText _ _) = True"
| "is_write _ = False"

fun is_api :: "effect \<Rightarrow> bool" where
  "is_api (ApiInsert _ _) = True"
| "is_api (ApiList _ _) = True"
| "is_api (ApiGet _ _) = True"
| "is_api _ = False"

definition refresh_calls :: "world \<Rightarrow> nat" where
  "refresh_calls w = length (filter is_refresh (trace w))"

definition file_writes :: "world \<Rightarrow> nat" where
  "file_writes w = length (filter is_write (trace w))"

definition api_calls :: "world \<Rightarrow> nat" where
  "api_calls w = length (filter is_api (trace w))"

text \<open>What one invocation added to the trace.\<close>

definition new_effects :: "world \<Rightarrow> world \<Rightarrow> effect list" where
  "new_effects w w' = drop (length (trace w)) (trace w')"

section \<open>The credential manager: \<^verbatim>\<open>get_service\<close>\<close>

text \<open>The five \<^verbatim>\<open>token_data.get(...)\<close> calls and the constructor.\<close>

definition make_credentials :: "json \<Rightarrow> error + credentials" where
  "make_credentials token_data =
     (case py_get token_data ''token'' JNull of Inl e \<Rightarrow> Inl e | Inr t \<Rightarrow>
      case py_get token_data ''refresh_token'' JNull of Inl e \<Rightarrow> Inl e | Inr r \<Rightarrow>
      case py_get token_data ''token_uri'' JNull of Inl e \<Rightarrow> Inl e | Inr u \<Rightarrow>
      case py_get token_data ''client_id'' JNull of Inl e \<Rightarrow> Inl e | Inr i \<Rightarrow>
      case py_get token_data ''client_secret'' JNull of Inl e \<Rightarrow> Inl e | Inr s \<Rightarrow>
        Inr \<lparr>token = t, refresh_token = r, token_uri = u,
             client_id = i, client_secret = s\<rparr>)"

definition GCAL_TOKEN_PATH :: string where
  "GCAL_TOKEN_PATH = ''~/.config/gcal/token.json''"

definition GMAIL_TOKEN_PATH :: string where
  "GMAIL_TOKEN_PATH = ''~/.config/gmail/token.json''"

text \<open>\<^verbatim>\<open>get_service\<close> of \<^verbatim>\<open>gcal.py\<close>, lines 28 to 49.\<close>

definition gcal_get_service :: "sdk \<Rightarrow> world \<Rightarrow> (error + service) \<times> world" where
  "gcal_get_service g w =
     (case files w GCAL_TOKEN_PATH of
        None \<Rightarrow>
          (Inl (SystemExit 1),
           emit (Stderr [Lit ''Error: Calendar not authenticated. Run OAuth setup first.'']) w)
      | Some txt \<Rightarrow>
          (case json_loads txt of Inl e \<Rightarrow> (Inl e, w) | Inr token_data \<Rightarrow>
           case make_credentials token_data of Inl e \<Rightarrow> (Inl e, w) | Inr creds \<Rightarrow>
             if expired g creds \<and> truthy (refresh_token creds) then
               (let w1 = emit (RefreshCall creds) w in
                case refresh g creds of Inl e \<Rightarrow> (Inl e, w1) | Inr creds' \<Rightarrow>
                case py_setitem token_data ''token'' (token creds') of
                  Inl e \<Rightarrow> (Inl e, w1)
                | Inr token_data' \<Rightarrow>
                    (Inr (build ''calendar'' ''v3'' creds'),
                     write_text GCAL_TOKEN_PATH (json_dumps token_data') w1))
             else (Inr (build ''calendar'' ''v3'' creds), w)))"

text \<open>\<^verbatim>\<open>get_service\<close> of \<^verbatim>\<open>gmail.py\<close>, lines 26 to 47.\<close>

definition gmail_get_service :: "sdk \<Rightarrow> world \<Rightarrow> (error + service) \<times> world" where
  "gmail_get_service g w =
     (case files w GMAIL_TOKEN_PATH of
        None \<Rightarrow>
          (Inl (SystemExit 1),
           emit (Stderr [Lit ''Error: Gmail not authenticated. Run OAuth setup first.'']) w)
      | Some txt \<Rightarrow>
          (case json_loads txt of Inl e \<Rightarrow> (Inl e, w) | Inr token_data \<Rightarrow>
           case make_credentials token_data of Inl e \<Rightarrow> (Inl e, w) | Inr creds \<Rightarrow>
             if expired g creds \<and> truthy (refresh_token creds) then
               (let w1 = emit (RefreshCall creds) w in
                case refresh g creds of Inl e \<Rightarrow> (Inl e, w1) | Inr creds' \<Rightarrow>
                case py_setitem token_data ''token'' (token creds') of
                  Inl e \<Rightarrow> (Inl e, w1)
                | Inr token_data' \<Rightarrow>
                    (Inr (build ''gmail'' ''v1'' creds'),
                     write_text GMAIL_TOKEN_PATH (json_dumps token_data') w1))
             else (Inr (build ''gmail'' ''v1'' creds), w)))"


section \<open>The Calendar tool\<close>

definition LOCAL_TZ :: string where
  "LOCAL_TZ = ''Asia/Singapore''"

subsection \<open>\<^verbatim>\<open>datetime.strptime(s, "%Y-%m-%d %H:%M")\<close>\<close>

text \<open>
  CPython turns the format into a regular expression, matches it at the start of the
  string, and raises \<^verbatim>\<open>ValueError\<close> when there is no match, when text remains after the
  match, or when the fields are not a date. The expression for this format is
  \<^verbatim>\<open>(\d\d\d\d)-(1[0-2]|0[1-9]|[1-9])-(3[0-1]|[1-2]\d|0[1-9]|[1-9]| [1-9])\s+(2[0-3]|[0-1]\d|\d):([0-5]\d|\d)\<close>.
  A matcher gives every way to match a prefix, as the matched text and the rest, in the
  order a backtracking engine tries them; the first complete match is the one taken.
  The model is of ASCII text.
\<close>

type_synonym matcher = "string \<Rightarrow> (string \<times> string) list"

definition one_of :: "string \<Rightarrow> matcher" where
  "one_of cs s = (case s of [] \<Rightarrow> [] | c # r \<Rightarrow> if c \<in> set cs then [([c], r)] else [])"

definition m_then :: "matcher \<Rightarrow> matcher \<Rightarrow> matcher" where
  "m_then p q s = concat (map (\<lambda>(a, r). map (\<lambda>(b, r'). (a @ b, r')) (q r)) (p s))"

definition m_or :: "matcher \<Rightarrow> matcher \<Rightarrow> matcher" where
  "m_or p q s = p s @ q s"

definition digit :: matcher where
  "digit = one_of ''0123456789''"

definition re_Y :: matcher where
  "re_Y = m_then digit (m_then digit (m_then digit digit))"

definition re_m :: matcher where
  "re_m = m_or (m_then (one_of ''1'') (one_of ''012''))
         (m_or (m_then (one_of ''0'') (one_of ''123456789''))
               (one_of ''123456789''))"

definition re_d :: matcher where
  "re_d = m_or (m_then (one_of ''3'') (one_of ''01''))
         (m_or (m_then (one_of ''12'') digit)
         (m_or (m_then (one_of ''0'') (one_of ''123456789''))
         (m_or (one_of ''123456789'')
               (m_then (one_of '' '') (one_of ''123456789'')))))"

definition re_H :: matcher where
  "re_H = m_or (m_then (one_of ''2'') (one_of ''0123''))
         (m_or (m_then (one_of ''01'') digit) digit)"

definition re_M :: matcher where
  "re_M = m_or (m_then (one_of ''012345'') digit) digit"

definition is_space :: "char \<Rightarrow> bool" where
  "is_space c = (c \<in> set [CHR '' '', CHR 0x09, CHR 0x0A, CHR 0x0B, CHR 0x0C, CHR 0x0D,
                           CHR 0x1C, CHR 0x1D, CHR 0x1E, CHR 0x1F])"

text \<open>\<^verbatim>\<open>\s+\<close>: one or more white-space characters, the longest run first.\<close>

fun spaces_from :: "string \<Rightarrow> matcher" where
  "spaces_from seen [] = []"
| "spaces_from seen (c # r) =
     (if is_space c then spaces_from (seen @ [c]) r @ [(seen @ [c], r)] else [])"

definition re_spaces :: matcher where
  "re_spaces = spaces_from []"

definition is_digit :: "char \<Rightarrow> bool" where
  "is_digit c = (c \<in> set ''0123456789'')"

definition digit_val :: "char \<Rightarrow> nat" where
  "digit_val c = length (takeWhile (\<lambda>d. d \<noteq> c) ''0123456789'')"

text \<open>\<^verbatim>\<open>int(group)\<close> on a matched group: digits, after at most a leading blank.\<close>

definition to_nat :: "string \<Rightarrow> nat" where
  "to_nat s = foldl (\<lambda>a c. 10 * a + digit_val c) 0 (filter is_digit s)"

definition strptime_matches :: "string \<Rightarrow> (string \<times> string \<times> string \<times> string \<times> string \<times> string) list" where
  "strptime_matches s =
     [(Y, m, d, H, M, r9).
        (Y, r1) \<leftarrow> re_Y s, (dash1, r2) \<leftarrow> one_of ''-'' r1,
        (m, r3) \<leftarrow> re_m r2, (dash2, r4) \<leftarrow> one_of ''-'' r3,
        (d, r5) \<leftarrow> re_d r4, (blank, r6) \<leftarrow> re_spaces r5,
        (H, r7) \<leftarrow> re_H r6, (colon, r8) \<leftarrow> one_of '':'' r7,
        (M, r9) \<leftarrow> re_M r8]"

definition is_leap :: "nat \<Rightarrow> bool" where
  "is_leap y = (y mod 4 = 0 \<and> (y mod 100 \<noteq> 0 \<or> y mod 400 = 0))"

definition days_in_month :: "nat \<Rightarrow> nat \<Rightarrow> nat" where
  "days_in_month y m =
     (if m = 2 then (if is_leap y then 29 else 28)
      else if m \<in> {4, 6, 9, 11} then 30 else 31)"

definition strptime :: "string \<Rightarrow> error + datetime" where
  "strptime s =
     (case strptime_matches s of
        [] \<Rightarrow> Inl ValueError
      | (Y, m, d, H, M, rest) # others \<Rightarrow>
          if rest \<noteq> [] then Inl ValueError
          else if to_nat Y < 1 \<or> days_in_month (to_nat Y) (to_nat m) < to_nat d
          then Inl ValueError
          else Inr \<lparr>dt_year = to_nat Y, dt_month = to_nat m, dt_day = to_nat d,
                    dt_hour = to_nat H, dt_minute = to_nat M\<rparr>)"

subsection \<open>\<^verbatim>\<open>isoformat()\<close> of a datetime with a time zone\<close>

definition digit_char :: "nat \<Rightarrow> char" where
  "digit_char n = ''0123456789'' ! (n mod 10)"

definition pad2 :: "nat \<Rightarrow> string" where
  "pad2 n = [digit_char (n div 10), digit_char n]"

definition pad4 :: "nat \<Rightarrow> string" where
  "pad4 n = [digit_char (n div 1000), digit_char (n div 100), digit_char (n div 10), digit_char n]"

text \<open>The offset, in seconds, as \<^verbatim>\<open>+HH:MM\<close>, with \<^verbatim>\<open>:SS\<close> when the seconds are not zero.
  A zone's offset is less than a day, so two digits hold the hours.\<close>

definition format_offset :: "int \<Rightarrow> string" where
  "format_offset off =
     (let a = nat \<bar>off\<bar> in
      (if off < 0 then ''-'' else ''+'') @ pad2 (a div 3600) @ '':'' @ pad2 (a mod 3600 div 60)
      @ (if a mod 60 \<noteq> 0 then '':'' @ pad2 (a mod 60) else []))"

text \<open>The wall-clock part: \<^verbatim>\<open>YYYY-MM-DDTHH:MM:SS\<close>, the seconds being zero.\<close>

definition iso_wall :: "datetime \<Rightarrow> string" where
  "iso_wall dt =
     pad4 (dt_year dt) @ ''-'' @ pad2 (dt_month dt) @ ''-'' @ pad2 (dt_day dt) @ ''T''
     @ pad2 (dt_hour dt) @ '':'' @ pad2 (dt_minute dt) @ '':00''"

text \<open>\<^verbatim>\<open>dt.replace(tzinfo=ZoneInfo(key)).isoformat()\<close>.\<close>

definition isoformat :: "sdk \<Rightarrow> string \<Rightarrow> datetime \<Rightarrow> string" where
  "isoformat g key dt = iso_wall dt @ format_offset (zone_utcoffset g key dt)"

subsection \<open>\<^verbatim>\<open>create_event\<close>\<close>

text \<open>The \<^verbatim>\<open>try\<close> block of \<^verbatim>\<open>create_event\<close>, lines 166 to 180: the event, or the
  exception raised while building it.\<close>

definition parse_event :: "sdk \<Rightarrow> string \<Rightarrow> string \<Rightarrow> string \<Rightarrow> error + json" where
  "parse_event g title start_str end_str =
     (if str_contains '' '' start_str then
        (case strptime start_str of Inl e \<Rightarrow> Inl e | Inr start_dt \<Rightarrow>
         (case strptime end_str of Inl e \<Rightarrow> Inl e | Inr end_dt \<Rightarrow>
            Inr (JDict [(''summary'', JStr title),
                        (''start'', JDict [(''dateTime'', JStr (isoformat g LOCAL_TZ start_dt))]),
                        (''end'', JDict [(''dateTime'', JStr (isoformat g LOCAL_TZ end_dt))])])))
      else Inr (JDict [(''summary'', JStr title),
                       (''start'', JDict [(''date'', JStr start_str)]),
                       (''end'', JDict [(''date'', JStr end_str)])]))"

text \<open>\<^verbatim>\<open>create_event\<close> of \<^verbatim>\<open>gcal.py\<close>, lines 158 to 191. The handler catches
  \<^verbatim>\<open>ValueError\<close> only.\<close>

definition create_event ::
  "sdk \<Rightarrow> string \<Rightarrow> string \<Rightarrow> string \<Rightarrow> string \<Rightarrow> world \<Rightarrow> (error + unit) \<times> world" where
  "create_event g title start_str end_str description w =
     (case gcal_get_service g w of
        (Inl e, w1) \<Rightarrow> (Inl e, w1)
      | (Inr service, w1) \<Rightarrow>
         (case parse_event g title start_str end_str of
            Inl e \<Rightarrow>
              if e = ValueError then
                (Inl (SystemExit 1),
                 emit (Stderr [Lit ''Format: YYYY-MM-DD HH:MM or YYYY-MM-DD''])
                   (emit (Stderr [Lit ''Error parsing date: '', Exc e]) w1))
              else (Inl e, w1)
          | Inr event \<Rightarrow>
             (case (if description \<noteq> [] then py_setitem event ''description'' (JStr description)
                    else Inr event) of Inl e \<Rightarrow> (Inl e, w1) | Inr body \<Rightarrow>
              (let w2 = emit (ApiInsert ''primary'' body) w1 in
               (case events_insert g ''primary'' body of Inl e \<Rightarrow> (Inl e, w2) | Inr result \<Rightarrow>
                (case py_get result ''htmlLink'' JNull of Inl e \<Rightarrow> (Inl e, w2) | Inr link \<Rightarrow>
                   (Inr (), emit (Stdout [Lit ''Event created: '', Val link]) w2)))))))"

subsection \<open>\<^verbatim>\<open>format_event\<close>\<close>











subsection \<open>The two date forms of the command line\<close>

text \<open>
  The text \<^verbatim>\<open>YYYY-MM-DD HH:MM\<close> of a date and time, the text \<^verbatim>\<open>YYYY-MM-DD\<close> of a
  date, and the date-times that exist: year 1 to 9999, a day of the month, an hour below
  24, a minute below 60.
\<close>

definition date_text :: "nat \<Rightarrow> nat \<Rightarrow> nat \<Rightarrow> string" where
  "date_text y m d = pad4 y @ ''-'' @ pad2 m @ ''-'' @ pad2 d"

definition timed_text :: "datetime \<Rightarrow> string" where
  "timed_text dt =
     date_text (dt_year dt) (dt_month dt) (dt_day dt) @ '' ''
     @ pad2 (dt_hour dt) @ '':'' @ pad2 (dt_minute dt)"

definition valid_datetime :: "datetime \<Rightarrow> bool" where
  "valid_datetime dt =
     (1 \<le> dt_year dt \<and> dt_year dt \<le> 9999 \<and> 1 \<le> dt_month dt \<and> dt_month dt \<le> 12
      \<and> 1 \<le> dt_day dt \<and> dt_day dt \<le> days_in_month (dt_year dt) (dt_month dt)
      \<and> dt_hour dt < 24 \<and> dt_minute dt < 60)"

text \<open>The bodies of the insert requests among the effects an invocation added.\<close>

definition submitted :: "world \<Rightarrow> world \<Rightarrow> json list" where
  "submitted w w' =
     concat (map (\<lambda>e. case e of ApiInsert cal body \<Rightarrow> [body] | _ \<Rightarrow> []) (new_effects w w'))"

section \<open>The Mail tool\<close>

text \<open>\<^verbatim>\<open>len(x)\<close>, \<^verbatim>\<open>for y in x\<close> and \<^verbatim>\<open>x[:n]\<close> on a decoded JSON value.\<close>

fun py_len :: "json \<Rightarrow> error + int" where
  "py_len (JStr s) = Inr (int (length s))"
| "py_len (JList xs) = Inr (int (length xs))"
| "py_len (JDict kvs) = Inr (int (length kvs))"
| "py_len _ = Inl TypeError"

fun py_iter :: "json \<Rightarrow> error + json list" where
  "py_iter (JStr s) = Inr (map (\<lambda>c. JStr [c]) s)"
| "py_iter (JList xs) = Inr xs"
| "py_iter (JDict kvs) = Inr (map (\<lambda>kv. JStr (fst kv)) kvs)"
| "py_iter _ = Inl TypeError"

fun py_slice_to :: "nat \<Rightarrow> json \<Rightarrow> error + json" where
  "py_slice_to n (JStr s) = Inr (JStr (take n s))"
| "py_slice_to n (JList xs) = Inr (JList (take n xs))"
| "py_slice_to n _ = Inl TypeError"

text \<open>
  \<^verbatim>\<open>{h["name"]: h["value"] for h in ...}\<close>. The key is evaluated before the value; a
  list or a dict as key is unhashable. The scripts look headers up by string keys only,
  so a key that is a number, a boolean or \<^verbatim>\<open>None\<close> is never found and is not kept.
\<close>

fun header_dict :: "json list \<Rightarrow> (string \<times> json) list \<Rightarrow> error + (string \<times> json) list" where
  "header_dict [] acc = Inr acc"
| "header_dict (h # hs) acc =
     (case py_getitem h ''name'' of Inl e \<Rightarrow> Inl e | Inr n \<Rightarrow>
      (case py_getitem h ''value'' of Inl e \<Rightarrow> Inl e | Inr v \<Rightarrow>
       (case n of
          JStr k \<Rightarrow> header_dict hs (dict_set acc k v)
        | JList xs \<Rightarrow> Inl TypeError
        | JDict kvs \<Rightarrow> Inl TypeError
        | _ \<Rightarrow> header_dict hs acc)))"

text \<open>The headers of \<^verbatim>\<open>full["payload"]["headers"]\<close> as a dict.\<close>

definition headers_of :: "json \<Rightarrow> error + (string \<times> json) list" where
  "headers_of full =
     (case py_getitem full ''payload'' of Inl e \<Rightarrow> Inl e | Inr payload \<Rightarrow>
      (case py_getitem payload ''headers'' of Inl e \<Rightarrow> Inl e | Inr hs \<Rightarrow>
       (case py_iter hs of Inl e \<Rightarrow> Inl e | Inr items \<Rightarrow> header_dict items [])))"

text \<open>\<^verbatim>\<open>headers.get(k, 'N/A')\<close>.\<close>

definition header_get :: "(string \<times> json) list \<Rightarrow> string \<Rightarrow> json" where
  "header_get headers k = (case map_of headers k of None \<Rightarrow> JStr ''N/A'' | Some v \<Rightarrow> v)"

text \<open>Several \<^verbatim>\<open>print\<close> calls in a row.\<close>

definition prints :: "frag list list \<Rightarrow> world \<Rightarrow> world" where
  "prints ls w = fold (\<lambda>l. emit (Stdout l)) ls w"

definition newline :: string where
  "newline = [CHR 0x0A]"

text \<open>The body of the \<^verbatim>\<open>for msg in messages\<close> loop of \<^verbatim>\<open>list_emails\<close>, lines 70 to 86.\<close>

fun list_emails_loop :: "sdk \<Rightarrow> json list \<Rightarrow> world \<Rightarrow> (error + unit) \<times> world" where
  "list_emails_loop g [] w = (Inr (), w)"
| "list_emails_loop g (msg # msgs) w =
     (case py_getitem msg ''id'' of Inl e \<Rightarrow> (Inl e, w) | Inr mid \<Rightarrow>
      (let w1 = emit (ApiGet mid ''metadata'') w in
       (case messages_get g mid ''metadata'' of Inl e \<Rightarrow> (Inl e, w1) | Inr full \<Rightarrow>
        (case headers_of full of Inl e \<Rightarrow> (Inl e, w1) | Inr headers \<Rightarrow>
         (case py_get full ''snippet'' (JStr []) of Inl e \<Rightarrow> (Inl e, w1) | Inr sn \<Rightarrow>
          (case py_slice_to 80 sn of Inl e \<Rightarrow> (Inl e, w1) | Inr snippet \<Rightarrow>
             list_emails_loop g msgs
               (prints
                  [ [Lit ''ID: '', Val mid],
                   [Lit ''From: '', Val (header_get headers ''From'')],
                   [Lit ''Subject: '', Val (header_get headers ''Subject'')],
                   [Lit ''Date: '', Val (header_get headers ''Date'')],
                   [Lit ''Preview: '', Val snippet, Lit ''...''],
                   [Lit (replicate 40 CHR ''-'')]] w1)))))))"

text \<open>\<^verbatim>\<open>list_emails\<close> of \<^verbatim>\<open>gmail.py\<close>, lines 50 to 86.\<close>

definition list_emails :: "sdk \<Rightarrow> bool \<Rightarrow> int \<Rightarrow> world \<Rightarrow> (error + unit) \<times> world" where
  "list_emails g unread_only limit w =
     (case gmail_get_service g w of
        (Inl e, w1) \<Rightarrow> (Inl e, w1)
      | (Inr service, w1) \<Rightarrow>
         (let query = (if unread_only then ''is:unread'' else []);
              w2 = emit (ApiList query limit) w1 in
          (case messages_list g query limit of Inl e \<Rightarrow> (Inl e, w2) | Inr results \<Rightarrow>
           (case py_get results ''messages'' (JList []) of Inl e \<Rightarrow> (Inl e, w2) | Inr messages \<Rightarrow>
            if \<not> truthy messages then (Inr (), emit (Stdout [Lit ''No emails found.'']) w2)
            else
              (let w3 = emit (Stdout [Lit (replicate 60 CHR ''='')]) w2 in
               (case py_len messages of Inl e \<Rightarrow> (Inl e, w3) | Inr n \<Rightarrow>
                (let w4 = prints
                      [ [Lit (if unread_only then ''Unread '' else []), Lit ''Emails (showing '',
                        Val (JInt n), Lit '')''],
                       [Lit (replicate 60 CHR ''='' @ newline)]] w3 in
                 (case py_iter messages of Inl e \<Rightarrow> (Inl e, w4) | Inr msgs \<Rightarrow>
                    list_emails_loop g msgs w4))))))))"

text \<open>
  The \<^verbatim>\<open>for part in payload["parts"]\<close> loop of \<^verbatim>\<open>read_email\<close>, lines 115 to 118:
  the decoded text of the first \<^verbatim>\<open>text/plain\<close> part that has data, or the empty
  string the variable \<^verbatim>\<open>body\<close> started with.
\<close>

fun first_plain_part :: "sdk \<Rightarrow> json list \<Rightarrow> error + string" where
  "first_plain_part g [] = Inr []"
| "first_plain_part g (part # parts) =
     (case py_getitem part ''mimeType'' of Inl e \<Rightarrow> Inl e | Inr mt \<Rightarrow>
      if mt = JStr ''text/plain'' then
        (case py_getitem part ''body'' of Inl e \<Rightarrow> Inl e | Inr b \<Rightarrow>
         (case py_get b ''data'' JNull of Inl e \<Rightarrow> Inl e | Inr d \<Rightarrow>
          if truthy d then b64decode_utf8 g d else first_plain_part g parts))
      else first_plain_part g parts)"

text \<open>
  Lines 108 to 120 of \<^verbatim>\<open>read_email\<close>: the value the final \<^verbatim>\<open>print\<close> receives,
  \<^verbatim>\<open>body or msg.get("snippet", "No body content")\<close>.
\<close>

definition read_email_body :: "sdk \<Rightarrow> json \<Rightarrow> error + json" where
  "read_email_body g msg =
     (case py_getitem msg ''payload'' of Inl e \<Rightarrow> Inl e | Inr payload \<Rightarrow>
      (case py_contains ''body'' payload of Inl e \<Rightarrow> Inl e | Inr has_body \<Rightarrow>
       (case (if has_body
              then (case py_getitem payload ''body'' of Inl e \<Rightarrow> Inl e
                    | Inr b \<Rightarrow> py_get b ''data'' JNull)
              else Inr (JBool False)) of Inl e \<Rightarrow> Inl e | Inr d \<Rightarrow>
        (case (if truthy d then b64decode_utf8 g d
               else (case py_contains ''parts'' payload of Inl e \<Rightarrow> Inl e
                     | Inr has_parts \<Rightarrow>
                        if has_parts
                        then (case py_getitem payload ''parts'' of Inl e \<Rightarrow> Inl e
                              | Inr ps \<Rightarrow>
                                 (case py_iter ps of Inl e \<Rightarrow> Inl e
                                  | Inr parts \<Rightarrow> first_plain_part g parts))
                        else Inr [])) of Inl e \<Rightarrow> Inl e | Inr body \<Rightarrow>
           if body \<noteq> [] then Inr (JStr body)
           else py_get msg ''snippet'' (JStr ''No body content'')))))"

text \<open>\<^verbatim>\<open>read_email\<close> of \<^verbatim>\<open>gmail.py\<close>, lines 89 to 120.\<close>

definition read_email :: "sdk \<Rightarrow> string \<Rightarrow> world \<Rightarrow> (error + unit) \<times> world" where
  "read_email g message_id w =
     (case gmail_get_service g w of
        (Inl e, w1) \<Rightarrow> (Inl e, w1)
      | (Inr service, w1) \<Rightarrow>
         (let w2 = emit (ApiGet (JStr message_id) ''full'') w1 in
          (case messages_get g (JStr message_id) ''full'' of Inl e \<Rightarrow> (Inl e, w2) | Inr msg \<Rightarrow>
           (case headers_of msg of Inl e \<Rightarrow> (Inl e, w2) | Inr headers \<Rightarrow>
            (let w3 = prints
                  [ [Lit (replicate 60 CHR ''='')],
                   [Lit ''From: '', Val (header_get headers ''From'')],
                   [Lit ''To: '', Val (header_get headers ''To'')],
                   [Lit ''Subject: '', Val (header_get headers ''Subject'')],
                   [Lit ''Date: '', Val (header_get headers ''Date'')],
                   [Lit (replicate 60 CHR ''='' @ newline)]] w2 in
             (case read_email_body g msg of Inl e \<Rightarrow> (Inl e, w3)
              | Inr shown \<Rightarrow> (Inr (), emit (Stdout [Val shown]) w3)))))))"

subsection \<open>Comparing the two tools, and example data\<close>

text \<open>
  The Mail tool's name for an effect of the Calendar tool: its own token path, its own
  wording of the missing-file message. Every other effect is the same.
\<close>

fun relabel :: "effect \<Rightarrow> effect" where
  "relabel (WriteText p txt) =
     WriteText (if p = GCAL_TOKEN_PATH then GMAIL_TOKEN_PATH else p) txt"
| "relabel (Stderr m) =
     Stderr (if m = [Lit ''Error: Calendar not authenticated. Run OAuth setup first.'']
             then [Lit ''Error: Gmail not authenticated. Run OAuth setup first.''] else m)"
| "relabel e = e"

definition as_gmail :: "service \<Rightarrow> service" where
  "as_gmail s = s\<lparr>api_name := ''gmail'', api_version := ''v1''\<rparr>"

text \<open>
  A small concrete SDK for evaluating the model: a credential counts as expired when its
  access token is the text \<open>old\<close>, and the provider accepts the refresh token \<open>r1\<close> only.
  Its mailbox holds one message, \<open>m1\<close>, already read, with no headers and an empty
  snippet; the provider lists it whatever \<^verbatim>\<open>maxResults\<close> is.
  Every zone is eight hours ahead of UTC, as Asia/Singapore has been since 1982, the
  system clock is on UTC, and \<^verbatim>\<open>fromisoformat\<close> knows three strings.
\<close>

definition example_sdk :: sdk where
  "example_sdk =
     \<lparr>expired = (\<lambda>c. token c = JStr ''old''),
      refresh = (\<lambda>c. if refresh_token c = JStr ''r1''
                       then Inr (c\<lparr>token := JStr ''new''\<rparr>) else Inl RefreshError),
      events_insert = (\<lambda>cal body. Inr (JDict [(''htmlLink'', JStr ''https://calendar/e1'')])),
      messages_list = (\<lambda>q n. if q = ''is:unread'' then Inr (JDict [(''resultSizeEstimate'', JInt 0)])
                           else Inr (JDict [(''messages'', JList [JDict [(''id'', JStr ''m1'')]])])),
      messages_get = (\<lambda>i fmt. Inr (JDict [(''payload'', JDict [(''headers'', JList [])]),
                                          (''snippet'', JStr [])])),
      b64decode_utf8 = (\<lambda>d. Inl DecodeError),
      zone_utcoffset = (\<lambda>key dt. 28800),
      fromisoformat = (\<lambda>s.
         if s = ''2024-01-10T09:00:00+08:00''
           then Inr \<lparr>wall = 63840474000000000, utcoff = Some 28800000000\<rparr>
         else if s = ''2024-01-10T01:30:00+00:00''
           then Inr \<lparr>wall = 63840447000000000, utcoff = Some 0\<rparr>
         else if s = ''2024-01-11''
           then Inr \<lparr>wall = 63840528000000000, utcoff = None\<rparr>
         else Inl ValueError),
      zone_offset_at = (\<lambda>key utc. 28800),
      system_utcoffset = (\<lambda>w. 0)\<rparr>"

definition token_record :: "string \<Rightarrow> json \<Rightarrow> json" where
  "token_record t r =
     JDict [(''token'', JStr t), (''refresh_token'', r), (''token_uri'', JStr ''uri''),
            (''client_id'', JStr ''id''), (''client_secret'', JStr ''secret'')]"

definition world_of :: "(string \<times> file_text) list \<Rightarrow> world" where
  "world_of fs = \<lparr>files = map_of fs, trace = []\<rparr>"

definition both_tokens :: "json \<Rightarrow> world" where
  "both_tokens td =
     world_of [(GCAL_TOKEN_PATH, JsonText td), (GMAIL_TOKEN_PATH, JsonText td)]"

section \<open>Properties of the credential manager\<close>

lemma make_credentials_dict:
  "make_credentials td = Inr c \<Longrightarrow> \<exists>kvs. td = JDict kvs"
  by (cases td) (simp_all add: make_credentials_def)




text \<open>The outcomes of \<^verbatim>\<open>get_service\<close>, one line per path through the source.\<close>

lemma gcal_absent:
  "files w GCAL_TOKEN_PATH = None \<Longrightarrow>
   gcal_get_service g w =
     (Inl (SystemExit 1),
      emit (Stderr [Lit ''Error: Calendar not authenticated. Run OAuth setup first.'']) w)"
  by (simp add: gcal_get_service_def)

lemma gcal_not_json:
  "files w GCAL_TOKEN_PATH = Some NotJson \<Longrightarrow> gcal_get_service g w = (Inl JSONDecodeError, w)"
  by (simp add: gcal_get_service_def)

lemma gcal_not_dict:
  "files w GCAL_TOKEN_PATH = Some (JsonText td) \<Longrightarrow> make_credentials td = Inl e \<Longrightarrow>
   gcal_get_service g w = (Inl e, w)"
  by (simp add: gcal_get_service_def)

lemma gcal_valid:
  "files w GCAL_TOKEN_PATH = Some (JsonText td) \<Longrightarrow> make_credentials td = Inr c \<Longrightarrow>
   \<not> (expired g c \<and> truthy (refresh_token c)) \<Longrightarrow>
   gcal_get_service g w = (Inr (build ''calendar'' ''v3'' c), w)"
  by (auto simp: gcal_get_service_def)

lemma gcal_refresh_rejected:
  "files w GCAL_TOKEN_PATH = Some (JsonText td) \<Longrightarrow> make_credentials td = Inr c \<Longrightarrow>
   expired g c \<Longrightarrow> truthy (refresh_token c) \<Longrightarrow> refresh g c = Inl e \<Longrightarrow>
   gcal_get_service g w = (Inl e, emit (RefreshCall c) w)"
  by (simp add: gcal_get_service_def)

lemma gcal_refreshed:
  "files w GCAL_TOKEN_PATH = Some (JsonText (JDict kvs)) \<Longrightarrow>
   make_credentials (JDict kvs) = Inr c \<Longrightarrow>
   expired g c \<Longrightarrow> truthy (refresh_token c) \<Longrightarrow> refresh g c = Inr c' \<Longrightarrow>
   gcal_get_service g w =
     (Inr (build ''calendar'' ''v3'' c'),
      write_text GCAL_TOKEN_PATH (JsonText (JDict (dict_set kvs ''token'' (token c'))))
        (emit (RefreshCall c) w))"
  by (simp add: gcal_get_service_def json_dumps_def)

lemma gmail_absent:
  "files w GMAIL_TOKEN_PATH = None \<Longrightarrow>
   gmail_get_service g w =
     (Inl (SystemExit 1),
      emit (Stderr [Lit ''Error: Gmail not authenticated. Run OAuth setup first.'']) w)"
  by (simp add: gmail_get_service_def)

lemma gmail_not_json:
  "files w GMAIL_TOKEN_PATH = Some NotJson \<Longrightarrow> gmail_get_service g w = (Inl JSONDecodeError, w)"
  by (simp add: gmail_get_service_def)

lemma gmail_not_dict:
  "files w GMAIL_TOKEN_PATH = Some (JsonText td) \<Longrightarrow> make_credentials td = Inl e \<Longrightarrow>
   gmail_get_service g w = (Inl e, w)"
  by (simp add: gmail_get_service_def)

lemma gmail_valid:
  "files w GMAIL_TOKEN_PATH = Some (JsonText td) \<Longrightarrow> make_credentials td = Inr c \<Longrightarrow>
   \<not> (expired g c \<and> truthy (refresh_token c)) \<Longrightarrow>
   gmail_get_service g w = (Inr (build ''gmail'' ''v1'' c), w)"
  by (auto simp: gmail_get_service_def)

lemma gmail_refresh_rejected:
  "files w GMAIL_TOKEN_PATH = Some (JsonText td) \<Longrightarrow> make_credentials td = Inr c \<Longrightarrow>
   expired g c \<Longrightarrow> truthy (refresh_token c) \<Longrightarrow> refresh g c = Inl e \<Longrightarrow>
   gmail_get_service g w = (Inl e, emit (RefreshCall c) w)"
  by (simp add: gmail_get_service_def)

lemma gmail_refreshed:
  "files w GMAIL_TOKEN_PATH = Some (JsonText (JDict kvs)) \<Longrightarrow>
   make_credentials (JDict kvs) = Inr c \<Longrightarrow>
   expired g c \<Longrightarrow> truthy (refresh_token c) \<Longrightarrow> refresh g c = Inr c' \<Longrightarrow>
   gmail_get_service g w =
     (Inr (build ''gmail'' ''v1'' c'),
      write_text GMAIL_TOKEN_PATH (JsonText (JDict (dict_set kvs ''token'' (token c'))))
        (emit (RefreshCall c) w))"
  by (simp add: gmail_get_service_def json_dumps_def)

lemmas counters = refresh_calls_def file_writes_def api_calls_def emit_def write_text_def

lemma new_effects_emit: "new_effects w (emit e w) = [e]"
  by (simp add: new_effects_def emit_def)

lemma new_effects_write:
  "new_effects w (write_text p txt (emit e w)) = [e, WriteText p txt]"
  by (simp add: new_effects_def emit_def write_text_def)

lemma new_effects_same: "new_effects w w = []"
  by (simp add: new_effects_def)

lemma files_emit: "files (emit e w) = files w"
  by (simp add: emit_def)

lemma files_write: "files (write_text p txt w) = (files w)(p \<mapsto> txt)"
  by (simp add: emit_def write_text_def)

text \<open>
  Claim C5. When the token file is absent, \<^verbatim>\<open>get_service\<close> of either tool prints its
  message on the error stream and exits with status 1; it makes no API call, no refresh
  call and no file write, and the file system is as it was.
\<close>

theorem absent_token_file:
  "(files w GCAL_TOKEN_PATH = None \<longrightarrow>
      gcal_get_service g w =
        (Inl (SystemExit 1),
         emit (Stderr [Lit ''Error: Calendar not authenticated. Run OAuth setup first.'']) w)
      \<and> files (snd (gcal_get_service g w)) = files w
      \<and> api_calls (snd (gcal_get_service g w)) = api_calls w
      \<and> refresh_calls (snd (gcal_get_service g w)) = refresh_calls w
      \<and> file_writes (snd (gcal_get_service g w)) = file_writes w)
   \<and> (files w GMAIL_TOKEN_PATH = None \<longrightarrow>
      gmail_get_service g w =
        (Inl (SystemExit 1),
         emit (Stderr [Lit ''Error: Gmail not authenticated. Run OAuth setup first.'']) w)
      \<and> files (snd (gmail_get_service g w)) = files w
      \<and> api_calls (snd (gmail_get_service g w)) = api_calls w
      \<and> refresh_calls (snd (gmail_get_service g w)) = refresh_calls w
      \<and> file_writes (snd (gmail_get_service g w)) = file_writes w)"
  by (simp add: gcal_absent gmail_absent counters)

theorem absent_token_file_witness:
  "files (world_of []) GCAL_TOKEN_PATH = None
   \<and> files (world_of []) GMAIL_TOKEN_PATH = None
   \<and> fst (gcal_get_service example_sdk (world_of [])) = Inl (SystemExit 1)
   \<and> fst (gmail_get_service example_sdk (world_of [])) = Inl (SystemExit 1)
   \<and> api_calls (snd (gcal_get_service example_sdk (world_of []))) = 0
   \<and> file_writes (snd (gmail_get_service example_sdk (world_of []))) = 0"
proof -
  have a: "files (world_of []) GCAL_TOKEN_PATH = None"
    and b: "files (world_of []) GMAIL_TOKEN_PATH = None"
    by (simp_all add: world_of_def)
  have c: "api_calls (world_of []) = 0" "file_writes (world_of []) = 0"
    by (simp_all add: world_of_def api_calls_def file_writes_def)
  show ?thesis
    using absent_token_file [of "world_of []" example_sdk] a b c
    by (simp add: counters world_of_def)
qed

text \<open>
  Claim C3. A credential that is not expired is returned as loaded, and the world is
  exactly as before: no refresh call, no write. In every invocation the token file is
  written at most once, and an invocation without a refresh call writes nothing.
\<close>

theorem no_refresh_no_write:
  "(files w GCAL_TOKEN_PATH = Some (JsonText td) \<and> make_credentials td = Inr c \<and> \<not> expired g c
      \<longrightarrow> gcal_get_service g w = (Inr (build ''calendar'' ''v3'' c), w))
   \<and> (files w GMAIL_TOKEN_PATH = Some (JsonText td) \<and> make_credentials td = Inr c \<and> \<not> expired g c
      \<longrightarrow> gmail_get_service g w = (Inr (build ''gmail'' ''v1'' c), w))
   \<and> file_writes (snd (gcal_get_service g w)) \<le> file_writes w + 1
   \<and> file_writes (snd (gmail_get_service g w)) \<le> file_writes w + 1
   \<and> (refresh_calls (snd (gcal_get_service g w)) = refresh_calls w
        \<longrightarrow> file_writes (snd (gcal_get_service g w)) = file_writes w
            \<and> files (snd (gcal_get_service g w)) = files w)
   \<and> (refresh_calls (snd (gmail_get_service g w)) = refresh_calls w
        \<longrightarrow> file_writes (snd (gmail_get_service g w)) = file_writes w
            \<and> files (snd (gmail_get_service g w)) = files w)"
proof -
  have cal: "file_writes (snd (gcal_get_service g w)) \<le> file_writes w + 1
    \<and> (refresh_calls (snd (gcal_get_service g w)) = refresh_calls w
        \<longrightarrow> file_writes (snd (gcal_get_service g w)) = file_writes w
            \<and> files (snd (gcal_get_service g w)) = files w)"
    by (simp add: gcal_get_service_def counters json_dumps_def Let_def
        split: option.splits sum.splits)
  have mail: "file_writes (snd (gmail_get_service g w)) \<le> file_writes w + 1
    \<and> (refresh_calls (snd (gmail_get_service g w)) = refresh_calls w
        \<longrightarrow> file_writes (snd (gmail_get_service g w)) = file_writes w
            \<and> files (snd (gmail_get_service g w)) = files w)"
    by (simp add: gmail_get_service_def counters json_dumps_def Let_def
        split: option.splits sum.splits)
  show ?thesis
    using cal mail by (simp add: gcal_valid gmail_valid)
qed

lemma example_tokens_files:
  "files (both_tokens td) GCAL_TOKEN_PATH = Some (JsonText td)"
  "files (both_tokens td) GMAIL_TOKEN_PATH = Some (JsonText td)"
  by (simp_all add: both_tokens_def world_of_def GCAL_TOKEN_PATH_def GMAIL_TOKEN_PATH_def)

lemma example_credentials:
  "make_credentials (token_record t r) =
     Inr \<lparr>token = JStr t, refresh_token = r, token_uri = JStr ''uri'',
          client_id = JStr ''id'', client_secret = JStr ''secret''\<rparr>"
  by (simp add: token_record_def make_credentials_def)

theorem no_refresh_no_write_witness:
  "gcal_get_service example_sdk (both_tokens (token_record ''fresh'' (JStr ''r1''))) =
     (Inr (build ''calendar'' ''v3''
        \<lparr>token = JStr ''fresh'', refresh_token = JStr ''r1'', token_uri = JStr ''uri'',
         client_id = JStr ''id'', client_secret = JStr ''secret''\<rparr>),
      both_tokens (token_record ''fresh'' (JStr ''r1'')))
   \<and> gmail_get_service example_sdk (both_tokens (token_record ''fresh'' (JStr ''r1''))) =
     (Inr (build ''gmail'' ''v1''
        \<lparr>token = JStr ''fresh'', refresh_token = JStr ''r1'', token_uri = JStr ''uri'',
         client_id = JStr ''id'', client_secret = JStr ''secret''\<rparr>),
      both_tokens (token_record ''fresh'' (JStr ''r1'')))
   \<and> refresh_calls (snd (gcal_get_service example_sdk
         (both_tokens (token_record ''fresh'' (JStr ''r1''))))) =
       refresh_calls (both_tokens (token_record ''fresh'' (JStr ''r1'')))
   \<and> refresh_calls (snd (gmail_get_service example_sdk
         (both_tokens (token_record ''fresh'' (JStr ''r1''))))) =
       refresh_calls (both_tokens (token_record ''fresh'' (JStr ''r1'')))"
proof -
  let ?c = "\<lparr>token = JStr ''fresh'', refresh_token = JStr ''r1'', token_uri = JStr ''uri'',
         client_id = JStr ''id'', client_secret = JStr ''secret''\<rparr>"
  have fresh: "\<not> expired example_sdk ?c"
    by (simp add: example_sdk_def)
  show ?thesis
    using no_refresh_no_write
      [of "both_tokens (token_record ''fresh'' (JStr ''r1''))" "token_record ''fresh'' (JStr ''r1'')"
          ?c example_sdk]
      fresh example_tokens_files example_credentials
    by simp
qed



text \<open>
  Claim C10. Run on token files with the same content, the two \<^verbatim>\<open>get_service\<close>
  functions do the same thing: the same error or the same credential (in a service
  object that differs in the API name and version only), the same effects up to the
  tool's own path and wording, and the same document left in the token file.
\<close>

theorem get_service_equivalent:
  "files w1 GCAL_TOKEN_PATH = files w2 GMAIL_TOKEN_PATH \<longrightarrow>
     map_sum id as_gmail (fst (gcal_get_service g w1)) = fst (gmail_get_service g w2)
     \<and> map relabel (new_effects w1 (snd (gcal_get_service g w1))) =
         new_effects w2 (snd (gmail_get_service g w2))
     \<and> files (snd (gcal_get_service g w1)) GCAL_TOKEN_PATH =
         files (snd (gmail_get_service g w2)) GMAIL_TOKEN_PATH"
proof
  assume same: "files w1 GCAL_TOKEN_PATH = files w2 GMAIL_TOKEN_PATH"
  show "map_sum id as_gmail (fst (gcal_get_service g w1)) = fst (gmail_get_service g w2)
     \<and> map relabel (new_effects w1 (snd (gcal_get_service g w1))) =
         new_effects w2 (snd (gmail_get_service g w2))
     \<and> files (snd (gcal_get_service g w1)) GCAL_TOKEN_PATH =
         files (snd (gmail_get_service g w2)) GMAIL_TOKEN_PATH"
  proof (cases "files w1 GCAL_TOKEN_PATH")
    case None
    then have "files w2 GMAIL_TOKEN_PATH = None" using same by simp
    with None show ?thesis
      by (simp add: gcal_absent gmail_absent new_effects_emit files_emit)
  next
    case (Some content)
    then have some2: "files w2 GMAIL_TOKEN_PATH = Some content" using same by simp
    show ?thesis
    proof (cases content)
      case NotJson
      with Some some2 show ?thesis
        by (simp add: gcal_not_json gmail_not_json new_effects_same)
    next
      case (JsonText td)
      note f1 = Some [unfolded JsonText] and f2 = some2 [unfolded JsonText]
      show ?thesis
      proof (cases "make_credentials td")
        case (Inl e)
        show ?thesis
          by (simp add: gcal_not_dict [OF f1 Inl] gmail_not_dict [OF f2 Inl] new_effects_same f1 f2)
      next
        case (Inr c)
        show ?thesis
        proof (cases "expired g c \<and> truthy (refresh_token c)")
          case False
          show ?thesis
            by (simp add: gcal_valid [OF f1 Inr False] gmail_valid [OF f2 Inr False]
                new_effects_same f1 f2 as_gmail_def build_def)
        next
          case True
          then have ex: "expired g c" and tr: "truthy (refresh_token c)" by simp_all
          obtain kvs where td: "td = JDict kvs"
            using make_credentials_dict [OF Inr] by blast
          show ?thesis
          proof (cases "refresh g c")
            case (Inl e)
            show ?thesis
              by (simp add: gcal_refresh_rejected [OF f1 Inr ex tr Inl]
                  gmail_refresh_rejected [OF f2 Inr ex tr Inl] new_effects_emit files_emit f1 f2)
          next
            case r: (Inr c')
            show ?thesis
              by (simp add: gcal_refreshed [OF f1 [unfolded td] Inr [unfolded td] ex tr r]
                  gmail_refreshed [OF f2 [unfolded td] Inr [unfolded td] ex tr r]
                  new_effects_write files_write as_gmail_def build_def)
          qed
        qed
      qed
    qed
  qed
qed

theorem get_service_equivalent_witness:
  "files (both_tokens (token_record ''old'' (JStr ''r1''))) GCAL_TOKEN_PATH =
     files (both_tokens (token_record ''old'' (JStr ''r1''))) GMAIL_TOKEN_PATH
   \<and> map_sum id as_gmail
        (fst (gcal_get_service example_sdk (both_tokens (token_record ''old'' (JStr ''r1''))))) =
       fst (gmail_get_service example_sdk (both_tokens (token_record ''old'' (JStr ''r1''))))"
  using get_service_equivalent
    [of "both_tokens (token_record ''old'' (JStr ''r1''))"
        "both_tokens (token_record ''old'' (JStr ''r1''))" example_sdk]
    example_tokens_files [of "token_record ''old'' (JStr ''r1'')"]
  by simp






section \<open>Properties of the Mail tool\<close>

lemma example_gmail_service:
  "gmail_get_service example_sdk (both_tokens (token_record ''fresh'' (JStr ''r1''))) =
     (Inr (build ''gmail'' ''v1''
        \<lparr>token = JStr ''fresh'', refresh_token = JStr ''r1'', token_uri = JStr ''uri'',
         client_id = JStr ''id'', client_secret = JStr ''secret''\<rparr>),
      both_tokens (token_record ''fresh'' (JStr ''r1'')))"
  by (rule gmail_valid [OF example_tokens_files(2) example_credentials])
     (simp add: example_sdk_def)

text \<open>
  Claim C8, as the code has it. \<^verbatim>\<open>list_emails\<close> hands the limit to the provider as
  \<^verbatim>\<open>maxResults\<close> and shows what comes back. Whenever the response holds no
  messages (the key missing, or an empty list), the only output is the line
  \<open>No emails found.\<close>: no header block and no item. This is so for every limit, 0 included.
\<close>

theorem list_emails_no_results:
  "gmail_get_service g w = (Inr service, w1)
   \<and> messages_list g (if unread_only then ''is:unread'' else []) limit = Inr results
   \<and> py_get results ''messages'' (JList []) = Inr messages \<and> \<not> truthy messages
   \<longrightarrow> list_emails g unread_only limit w =
         (Inr (), emit (Stdout [Lit ''No emails found.''])
                    (emit (ApiList (if unread_only then ''is:unread'' else []) limit) w1))"
  by (simp add: list_emails_def Let_def)

theorem list_emails_no_results_witness:
  "list_emails example_sdk True 0 (both_tokens (token_record ''fresh'' (JStr ''r1''))) =
     (Inr (), emit (Stdout [Lit ''No emails found.''])
                (emit (ApiList ''is:unread'' 0) (both_tokens (token_record ''fresh'' (JStr ''r1'')))))"
proof -
  have l: "messages_list example_sdk (if True then ''is:unread'' else []) 0 =
      Inr (JDict [(''resultSizeEstimate'', JInt 0)])"
    by (simp add: example_sdk_def)
  have m: "py_get (JDict [(''resultSizeEstimate'', JInt 0)]) ''messages'' (JList []) = Inr (JList [])"
    by simp
  show ?thesis
    using list_emails_no_results
      [of example_sdk "both_tokens (token_record ''fresh'' (JStr ''r1''))" _
          "both_tokens (token_record ''fresh'' (JStr ''r1''))" True 0
          "JDict [(''resultSizeEstimate'', JInt 0)]" "JList []"]
      example_gmail_service l m
    by simp
qed

text \<open>
  The claim as written fails: the tool has no limit of its own. With limit 0 and a
  provider that lists a message all the same, the header block and the item are shown.
\<close>

theorem list_emails_limit_zero_shows_items:
  "fst (list_emails example_sdk False 0 (both_tokens (token_record ''fresh'' (JStr ''r1'')))) = Inr ()
   \<and> new_effects (both_tokens (token_record ''fresh'' (JStr ''r1'')))
        (snd (list_emails example_sdk False 0 (both_tokens (token_record ''fresh'' (JStr ''r1''))))) =
       [ApiList [] 0,
        Stdout [Lit (replicate 60 CHR ''='')],
        Stdout [Lit [], Lit ''Emails (showing '', Val (JInt 1), Lit '')''],
        Stdout [Lit (replicate 60 CHR ''='' @ newline)],
        ApiGet (JStr ''m1'') ''metadata'',
        Stdout [Lit ''ID: '', Val (JStr ''m1'')],
        Stdout [Lit ''From: '', Val (JStr ''N/A'')],
        Stdout [Lit ''Subject: '', Val (JStr ''N/A'')],
        Stdout [Lit ''Date: '', Val (JStr ''N/A'')],
        Stdout [Lit ''Preview: '', Val (JStr []), Lit ''...''],
        Stdout [Lit (replicate 40 CHR ''-'')]]"
proof -
  have l: "messages_list example_sdk [] 0 =
      Inr (JDict [(''messages'', JList [JDict [(''id'', JStr ''m1'')]])])"
    by (simp add: example_sdk_def)
  have g: "messages_get example_sdk (JStr ''m1'') ''metadata'' =
      Inr (JDict [(''payload'', JDict [(''headers'', JList [])]), (''snippet'', JStr [])])"
    by (simp add: example_sdk_def)
  have t: "trace (both_tokens td) = []" for td
    by (simp add: both_tokens_def world_of_def)
  show ?thesis
    by (simp add: list_emails_def example_gmail_service l g Let_def headers_of_def header_get_def
        prints_def emit_def new_effects_def t)
qed

text \<open>
  The extraction order of \<^verbatim>\<open>read_email\<close>: the direct body when it has data, else the
  first \<^verbatim>\<open>text/plain\<close> part with data, else whatever \<^verbatim>\<open>msg.get("snippet",
  "No body content")\<close> gives.
\<close>

lemma read_email_body_direct:
  "py_getitem msg ''payload'' = Inr (JDict p) \<Longrightarrow> map_of p ''body'' = Some (JDict b) \<Longrightarrow>
   map_of b ''data'' = Some d \<Longrightarrow> truthy d \<Longrightarrow> b64decode_utf8 g d = Inr text \<Longrightarrow>
   text \<noteq> [] \<Longrightarrow> read_email_body g msg = Inr (JStr text)"
  by (simp add: read_email_body_def)

lemma read_email_body_no_text:
  "py_getitem msg ''payload'' = Inr (JDict p) \<Longrightarrow>
   map_of p ''body'' = None \<or> map_of p ''body'' = Some (JDict b) \<and> map_of b ''data'' = None \<Longrightarrow>
   map_of p ''parts'' = None \<Longrightarrow>
   read_email_body g msg = py_get msg ''snippet'' (JStr ''No body content'')"
  by (auto simp: read_email_body_def)

text \<open>
  Claim C6 at the input it names: no plain-text part and an empty snippet. A message
  whose \<open>snippet\<close> key is present and empty is shown as the empty string, for a single
  HTML body without data as for a multipart message with an HTML part only; the literal
  \<open>No body content\<close> appears only when the \<open>snippet\<close> key is absent.
\<close>

theorem empty_snippet_shown_empty:
  "read_email_body g
     (JDict [(''payload'', JDict [(''headers'', JList []), (''mimeType'', JStr ''text/html''),
                                  (''body'', JDict [(''size'', JInt 0)])]),
             (''snippet'', JStr [])]) = Inr (JStr [])
   \<and> read_email_body g
     (JDict [(''payload'', JDict [(''headers'', JList []), (''mimeType'', JStr ''multipart/alternative''),
                                  (''body'', JDict [(''size'', JInt 0)]),
                                  (''parts'', JList [JDict [(''mimeType'', JStr ''text/html''),
                                                           (''body'', JDict [(''data'', JStr ''PGI-'')])]])]),
             (''snippet'', JStr [])]) = Inr (JStr [])
   \<and> read_email_body g
     (JDict [(''payload'', JDict [(''headers'', JList []), (''mimeType'', JStr ''text/html''),
                                  (''body'', JDict [(''size'', JInt 0)])])])
       = Inr (JStr ''No body content'')"
  by (simp add: read_email_body_def)

section \<open>Properties of the Calendar tool\<close>

lemma strptime_error: "strptime s = Inl e \<Longrightarrow> e = ValueError"
  by (auto simp: strptime_def split: list.splits if_splits)

lemma parse_event_error: "parse_event g title s e = Inl x \<Longrightarrow> x = ValueError"
  by (auto simp: parse_event_def split: if_splits sum.splits dest: strptime_error)

lemma example_gcal_service:
  "gcal_get_service example_sdk (both_tokens (token_record ''fresh'' (JStr ''r1''))) =
     (Inr (build ''calendar'' ''v3''
        \<lparr>token = JStr ''fresh'', refresh_token = JStr ''r1'', token_uri = JStr ''uri'',
         client_id = JStr ''id'', client_secret = JStr ''secret''\<rparr>),
      both_tokens (token_record ''fresh'' (JStr ''r1'')))"
  by (rule gcal_valid [OF example_tokens_files(1) example_credentials])
     (simp add: example_sdk_def)








lemma str_contains_char: "str_contains [c] s = (c \<in> set s)"
proof
  assume "str_contains [c] s"
  then obtain i where i: "take (Suc 0) (drop i s) = [c]"
    by (auto simp: str_contains_def list_ex_iff)
  then have "drop i s \<noteq> []" by auto
  then obtain x xs where d: "drop i s = x # xs" by (cases "drop i s") auto
  with i have "x = c" by simp
  with d have "c \<in> set (drop i s)" by simp
  then show "c \<in> set s" by (rule in_set_dropD)
next
  assume "c \<in> set s"
  then obtain i where i: "i < length s" "s ! i = c"
    by (auto simp: in_set_conv_nth)
  then have "drop i s = c # drop (Suc i) s"
    by (simp add: Cons_nth_drop_Suc [symmetric])
  then have "take (Suc 0) (drop i s) = [c]" by simp
  with i(1) show "str_contains [c] s"
    by (auto simp: str_contains_def list_ex_iff intro!: bexI [of _ i])
qed

lemma digit_char_cases:
  obtains "digit_char n = CHR ''0''" "n mod 10 = 0" | "digit_char n = CHR ''1''" "n mod 10 = 1"
  | "digit_char n = CHR ''2''" "n mod 10 = 2" | "digit_char n = CHR ''3''" "n mod 10 = 3"
  | "digit_char n = CHR ''4''" "n mod 10 = 4" | "digit_char n = CHR ''5''" "n mod 10 = 5"
  | "digit_char n = CHR ''6''" "n mod 10 = 6" | "digit_char n = CHR ''7''" "n mod 10 = 7"
  | "digit_char n = CHR ''8''" "n mod 10 = 8" | "digit_char n = CHR ''9''" "n mod 10 = 9"
proof -
  have "n mod 10 < 10" by simp
  then have "n mod 10 = 0 \<or> n mod 10 = 1 \<or> n mod 10 = 2 \<or> n mod 10 = 3 \<or> n mod 10 = 4
     \<or> n mod 10 = 5 \<or> n mod 10 = 6 \<or> n mod 10 = 7 \<or> n mod 10 = 8 \<or> n mod 10 = 9"
    by presburger
  then show ?thesis
    using that by (auto simp: digit_char_def)
qed

lemma digit_char_not_blank: "digit_char n \<noteq> CHR '' ''"
  by (rule digit_char_cases [of n]) simp_all

lemma date_text_no_blank: "\<not> str_contains '' '' (date_text y m d)"
  by (simp add: str_contains_char date_text_def pad4_def pad2_def
      digit_char_not_blank digit_char_not_blank [symmetric])

lemma submitted_insert:
  "submitted w (emit (ApiInsert cal body) w) = [body]"
  "submitted w (emit (Stdout l) (emit (ApiInsert cal body) w)) = [body]"
  by (simp_all add: submitted_def new_effects_def emit_def)

lemma create_event_submits:
  assumes "gcal_get_service g w = (Inr service, w1)"
    and "parse_event g title start_str end_str = Inr (JDict kvs)"
  shows "submitted w1 (snd (create_event g title start_str end_str description w)) =
     [JDict (if description = [] then kvs
             else dict_set kvs ''description'' (JStr description))]"
  using assms
  by (simp add: create_event_def Let_def submitted_insert split: sum.splits)

lemma digit_val_digit_char: "digit_val (digit_char n) = n mod 10"
  by (rule digit_char_cases [of n]) (simp_all add: digit_val_def)

lemma is_digit_digit_char: "is_digit (digit_char n)"
  by (rule digit_char_cases [of n]) (simp_all add: is_digit_def)

lemma not_space_digit_char: "\<not> is_space (digit_char n)"
  by (rule digit_char_cases [of n]) (simp_all add: is_space_def)

lemma digit_digit_char: "digit (digit_char n # r) = [([digit_char n], r)]"
  by (rule digit_char_cases [of n]) (simp_all add: digit_def one_of_def)

lemma nonzero_digit_char:
  "n mod 10 \<noteq> 0 \<Longrightarrow> one_of ''123456789'' (digit_char n # r) = [([digit_char n], r)]"
  by (rule digit_char_cases [of n]) (simp_all add: one_of_def)

lemma dash_digit_char: "one_of ''-'' (digit_char n # r) = []"
  by (rule digit_char_cases [of n]) (simp_all add: one_of_def)

lemma colon_digit_char: "one_of '':'' (digit_char n # r) = []"
  by (rule digit_char_cases [of n]) (simp_all add: one_of_def)

lemma spaces_digit_char: "re_spaces (digit_char n # r) = []"
  by (simp add: re_spaces_def not_space_digit_char)

lemma blank_then_digit: "re_spaces (CHR '' '' # digit_char n # r) = [('' '', digit_char n # r)]"
proof -
  have "is_space (CHR '' '')" by (simp add: is_space_def)
  then show ?thesis by (simp add: re_spaces_def not_space_digit_char)
qed

lemma to_nat_pad2: "n < 100 \<Longrightarrow> to_nat (pad2 n) = n"
  by (simp add: to_nat_def pad2_def is_digit_digit_char digit_val_digit_char)

lemma re_Y_pad4: "re_Y (pad4 y @ r) = [(pad4 y, r)]"
  by (simp add: re_Y_def pad4_def m_then_def digit_digit_char)

lemma digit_char_numeral:
  "digit_char 0 = CHR ''0''" "digit_char 1 = CHR ''1''" "digit_char 2 = CHR ''2''"
  "digit_char 3 = CHR ''3''" "digit_char 4 = CHR ''4''" "digit_char 5 = CHR ''5''"
  by (simp_all add: digit_char_def)

lemma digit_concrete:
  "digit (CHR ''0'' # r) = [(''0'', r)]" "digit (CHR ''1'' # r) = [(''1'', r)]"
  "digit (CHR ''2'' # r) = [(''2'', r)]" "digit (CHR ''3'' # r) = [(''3'', r)]"
  "digit (CHR ''4'' # r) = [(''4'', r)]" "digit (CHR ''5'' # r) = [(''5'', r)]"
  by (simp_all add: digit_def one_of_def)

lemma one_of_Cons: "one_of cs (c # r) = (if c \<in> set cs then [([c], r)] else [])"
  by (simp add: one_of_def)

lemma digit_char_Suc_0: "digit_char (Suc 0) = CHR ''1''"
  by (simp add: digit_char_def)

lemma nonzero_digit_char_in:
  "0 < n mod 10 \<Longrightarrow>
   digit_char n = CHR ''1'' \<or> digit_char n = CHR ''2'' \<or> digit_char n = CHR ''3''
   \<or> digit_char n = CHR ''4'' \<or> digit_char n = CHR ''5'' \<or> digit_char n = CHR ''6''
   \<or> digit_char n = CHR ''7'' \<or> digit_char n = CHR ''8'' \<or> digit_char n = CHR ''9''"
  by (rule digit_char_cases [of n]) simp_all

lemmas group_simps = pad2_def m_then_def m_or_def digit_digit_char digit_char_numeral
  digit_char_Suc_0 digit_concrete one_of_Cons

lemma re_M_pad2:
  assumes "n < 60"
  shows "re_M (pad2 n @ r) = [(pad2 n, r), ([digit_char (n div 10)], digit_char n # r)]"
proof -
  have "n div 10 = 0 \<or> n div 10 = 1 \<or> n div 10 = 2 \<or> n div 10 = 3 \<or> n div 10 = 4 \<or> n div 10 = 5"
    using assms by presburger
  then show ?thesis
    by (elim disjE) (simp_all add: re_M_def group_simps)
qed

lemma re_H_pad2:
  assumes "n < 24"
  shows "re_H (pad2 n @ r) = [(pad2 n, r), ([digit_char (n div 10)], digit_char n # r)]"
proof -
  have "n div 10 = 0 \<or> n div 10 = 1 \<or> n = 20 \<or> n = 21 \<or> n = 22 \<or> n = 23"
    using assms by presburger
  then show ?thesis
  proof (elim disjE)
    assume "n div 10 = 0" then show ?thesis by (simp add: re_H_def group_simps)
  next
    assume "n div 10 = 1" then show ?thesis by (simp add: re_H_def group_simps)
  qed (simp_all add: re_H_def pad2_def m_then_def m_or_def digit_char_def digit_def one_of_def)
qed

lemma re_m_pad2:
  assumes "1 \<le> n" "n \<le> 12"
  shows "re_m (pad2 n @ r) =
     (pad2 n, r) # (if 10 \<le> n then [([digit_char (n div 10)], digit_char n # r)] else [])"
proof -
  have "n div 10 = 0 \<and> n mod 10 \<noteq> 0 \<and> n < 10 \<or> n = 10 \<or> n = 11 \<or> n = 12"
    using assms by presburger
  then show ?thesis
  proof (elim disjE)
    assume a: "n div 10 = 0 \<and> n mod 10 \<noteq> 0 \<and> n < 10"
    then have "0 < n mod 10" by linarith
    from nonzero_digit_char_in [OF this] a show ?thesis
      by (simp add: re_m_def group_simps)
  qed (simp_all add: re_m_def pad2_def m_then_def m_or_def digit_char_def one_of_def)
qed

lemma re_d_pad2:
  assumes "1 \<le> n" "n \<le> 31"
  shows "re_d (pad2 n @ r) =
     (pad2 n, r) # (if 10 \<le> n then [([digit_char (n div 10)], digit_char n # r)] else [])"
proof -
  have "n div 10 = 0 \<and> n mod 10 \<noteq> 0 \<and> n < 10 \<or> n div 10 = 1 \<and> 10 \<le> n
      \<or> n div 10 = 2 \<and> 10 \<le> n \<or> n = 30 \<or> n = 31"
    using assms by presburger
  then show ?thesis
  proof (elim disjE)
    assume a: "n div 10 = 0 \<and> n mod 10 \<noteq> 0 \<and> n < 10"
    then have "0 < n mod 10" by linarith
    from nonzero_digit_char_in [OF this] a show ?thesis
      by (simp add: re_d_def group_simps)
  next
    assume "n div 10 = 1 \<and> 10 \<le> n"
    then show ?thesis by (simp add: re_d_def group_simps)
  next
    assume "n div 10 = 2 \<and> 10 \<le> n"
    then show ?thesis by (simp add: re_d_def group_simps)
  qed (simp_all add: re_d_def pad2_def m_then_def m_or_def digit_char_def digit_def one_of_def)
qed

lemma four_digits:
  fixes n :: nat
  assumes "n < 10000"
  shows "10 * (10 * (10 * ((n div 1000) mod 10) + (n div 100) mod 10) + (n div 10) mod 10) + n mod 10 = n"
proof -
  define q1 where "q1 = n div 10"
  define q2 where "q2 = q1 div 10"
  define q3 where "q3 = q2 div 10"
  have a: "n div 100 = q2" by (simp add: q1_def q2_def div_mult2_eq)
  have b: "n div 1000 = q3" by (simp add: q1_def q2_def q3_def div_mult2_eq)
  have c: "q3 < 10" using assms unfolding b [symmetric] by simp
  have e1: "n = 10 * q1 + n mod 10" by (simp add: q1_def)
  have e2: "q1 = 10 * q2 + q1 mod 10" by (simp add: q2_def)
  have e3: "q2 = 10 * q3 + q2 mod 10" by (simp add: q3_def)
  have "10 * (10 * (10 * (q3 mod 10) + q2 mod 10) + q1 mod 10) + n mod 10 = n"
    using c e1 e2 e3 by simp
  then show ?thesis by (simp add: a b q1_def [symmetric])
qed

lemma blank_then_pad2: "re_spaces (CHR '' '' # pad2 n @ r) = [('' '', pad2 n @ r)]"
  using blank_then_digit [of "n div 10" "digit_char n # r"] by (simp add: pad2_def)

lemma to_nat_pad4: "n < 10000 \<Longrightarrow> to_nat (pad4 n) = n"
proof -
  assume "n < 10000"
  have "to_nat (pad4 n) =
      10 * (10 * (10 * ((n div 1000) mod 10) + (n div 100) mod 10) + (n div 10) mod 10) + n mod 10"
    by (simp add: to_nat_def pad4_def is_digit_digit_char digit_val_digit_char)
  also have "\<dots> = n" using \<open>n < 10000\<close> by (rule four_digits)
  finally show ?thesis .
qed

lemma strptime_matches_timed_text:
  assumes "1 \<le> m" "m \<le> 12" "1 \<le> d" "d \<le> 31" "H < 24" "M < 60"
  shows "\<exists>rest. strptime_matches
      (pad4 y @ ''-'' @ pad2 m @ ''-'' @ pad2 d @ '' '' @ pad2 H @ '':'' @ pad2 M) =
    (pad4 y, pad2 m, pad2 d, pad2 H, pad2 M, []) # rest"
  using assms re_M_pad2 [of M "[]"]
  by (simp add: strptime_matches_def re_Y_pad4 re_m_pad2 re_d_pad2 re_H_pad2
      one_of_Cons dash_digit_char colon_digit_char spaces_digit_char blank_then_pad2)

lemma strptime_timed_text:
  assumes "valid_datetime dt"
  shows "strptime (timed_text dt) = Inr dt"
proof -
  from assms have v: "1 \<le> dt_year dt" "dt_year dt \<le> 9999" "1 \<le> dt_month dt" "dt_month dt \<le> 12"
    "1 \<le> dt_day dt" "dt_day dt \<le> days_in_month (dt_year dt) (dt_month dt)"
    "dt_hour dt < 24" "dt_minute dt < 60"
    by (simp_all add: valid_datetime_def)
  have "days_in_month (dt_year dt) (dt_month dt) \<le> 31"
    by (simp add: days_in_month_def)
  with v(6) have d31: "dt_day dt \<le> 31" by linarith
  from strptime_matches_timed_text [OF v(3) v(4) v(5) d31 v(7) v(8), of "dt_year dt"]
  obtain rest where m: "strptime_matches (timed_text dt) =
      (pad4 (dt_year dt), pad2 (dt_month dt), pad2 (dt_day dt), pad2 (dt_hour dt),
       pad2 (dt_minute dt), []) # rest"
    by (auto simp: timed_text_def date_text_def)
  have n: "to_nat (pad4 (dt_year dt)) = dt_year dt" "to_nat (pad2 (dt_month dt)) = dt_month dt"
    "to_nat (pad2 (dt_day dt)) = dt_day dt" "to_nat (pad2 (dt_hour dt)) = dt_hour dt"
    "to_nat (pad2 (dt_minute dt)) = dt_minute dt"
    using v d31 by (simp_all add: to_nat_pad2 to_nat_pad4)
  show ?thesis
    using v by (simp add: strptime_def m n)
qed

lemma timed_text_has_blank: "str_contains '' '' (timed_text dt)"
  by (simp add: str_contains_char timed_text_def)

text \<open>
  Claim C7. Once the service is obtained: for every date and time that exists, written
  \<^verbatim>\<open>YYYY-MM-DD HH:MM\<close>, the string parses to that date and time, and the one request
  submitted is a timed event whose \<open>dateTime\<close> fields spell the same wall-clock date and
  time, with seconds zero, followed by the offset of the configured zone
  \<open>Asia/Singapore\<close> at that wall-clock time. The same holds of any other spelling that
  \<^verbatim>\<open>strptime\<close> accepts for a start string with a blank. When the two strings are dates
  \<^verbatim>\<open>YYYY-MM-DD\<close>, the one request submitted is an all-day event whose \<open>start\<close> and
  \<open>end\<close> hold the key \<open>date\<close> alone, with the strings as given. A description, when
  not empty, is the only other key.
\<close>

theorem create_event_payload:
  "(gcal_get_service g w = (Inr service, w1) \<and> valid_datetime sdt \<and> valid_datetime edt \<longrightarrow>
      strptime (timed_text sdt) = Inr sdt \<and> strptime (timed_text edt) = Inr edt
      \<and> submitted w1 (snd (create_event g title (timed_text sdt) (timed_text edt) description w)) =
        [JDict ([(''summary'', JStr title),
                 (''start'', JDict [(''dateTime'',
                    JStr (date_text (dt_year sdt) (dt_month sdt) (dt_day sdt) @ ''T''
                          @ pad2 (dt_hour sdt) @ '':'' @ pad2 (dt_minute sdt) @ '':00''
                          @ format_offset (zone_utcoffset g ''Asia/Singapore'' sdt)))]),
                 (''end'', JDict [(''dateTime'',
                    JStr (date_text (dt_year edt) (dt_month edt) (dt_day edt) @ ''T''
                          @ pad2 (dt_hour edt) @ '':'' @ pad2 (dt_minute edt) @ '':00''
                          @ format_offset (zone_utcoffset g ''Asia/Singapore'' edt)))])]
                @ (if description = [] then [] else [(''description'', JStr description)]))])
   \<and> (gcal_get_service g w = (Inr service, w1) \<and> str_contains '' '' start_str
      \<and> strptime start_str = Inr sdt \<and> strptime end_str = Inr edt \<longrightarrow>
      submitted w1 (snd (create_event g title start_str end_str description w)) =
        [JDict ([(''summary'', JStr title),
                 (''start'', JDict [(''dateTime'',
                    JStr (iso_wall sdt @ format_offset (zone_utcoffset g ''Asia/Singapore'' sdt)))]),
                 (''end'', JDict [(''dateTime'',
                    JStr (iso_wall edt @ format_offset (zone_utcoffset g ''Asia/Singapore'' edt)))])]
                @ (if description = [] then [] else [(''description'', JStr description)]))])
   \<and> (gcal_get_service g w = (Inr service, w1) \<longrightarrow>
      submitted w1 (snd (create_event g title (date_text y m d) (date_text y' m' d') description w)) =
        [JDict ([(''summary'', JStr title),
                 (''start'', JDict [(''date'', JStr (date_text y m d))]),
                 (''end'', JDict [(''date'', JStr (date_text y' m' d'))])]
                @ (if description = [] then [] else [(''description'', JStr description)]))])"
proof -
  have timed: "parse_event g title s e =
      Inr (JDict [(''summary'', JStr title),
                 (''start'', JDict [(''dateTime'',
                    JStr (iso_wall sdt @ format_offset (zone_utcoffset g ''Asia/Singapore'' sdt)))]),
                 (''end'', JDict [(''dateTime'',
                    JStr (iso_wall edt @ format_offset (zone_utcoffset g ''Asia/Singapore'' edt)))])])"
    if "str_contains '' '' s" "strptime s = Inr sdt" "strptime e = Inr edt" for s e
    using that by (simp add: parse_event_def isoformat_def LOCAL_TZ_def)
  have all_day: "parse_event g title (date_text y m d) (date_text y' m' d') =
      Inr (JDict [(''summary'', JStr title),
                 (''start'', JDict [(''date'', JStr (date_text y m d))]),
                 (''end'', JDict [(''date'', JStr (date_text y' m' d'))])])"
    by (simp add: parse_event_def date_text_no_blank)
  have wall: "iso_wall t = date_text (dt_year t) (dt_month t) (dt_day t) @ ''T''
      @ pad2 (dt_hour t) @ '':'' @ pad2 (dt_minute t) @ '':00''" for t
    by (simp add: iso_wall_def date_text_def)
  have canonical: "parse_event g title (timed_text sdt) (timed_text edt) =
      Inr (JDict [(''summary'', JStr title),
                 (''start'', JDict [(''dateTime'',
                    JStr (date_text (dt_year sdt) (dt_month sdt) (dt_day sdt) @ ''T''
                          @ pad2 (dt_hour sdt) @ '':'' @ pad2 (dt_minute sdt) @ '':00''
                          @ format_offset (zone_utcoffset g ''Asia/Singapore'' sdt)))]),
                 (''end'', JDict [(''dateTime'',
                    JStr (date_text (dt_year edt) (dt_month edt) (dt_day edt) @ ''T''
                          @ pad2 (dt_hour edt) @ '':'' @ pad2 (dt_minute edt) @ '':00''
                          @ format_offset (zone_utcoffset g ''Asia/Singapore'' edt)))])])"
    if "valid_datetime sdt" "valid_datetime edt"
    using timed [OF timed_text_has_blank strptime_timed_text [OF that(1)]
        strptime_timed_text [OF that(2)]]
    by (simp add: wall)
  show ?thesis
    by (auto simp: create_event_submits [OF _ timed] create_event_submits [OF _ all_day]
        create_event_submits [OF _ canonical] strptime_timed_text)
qed

theorem create_event_payload_witness:
  "submitted (both_tokens (token_record ''fresh'' (JStr ''r1'')))
     (snd (create_event example_sdk ''Standup'' ''2024-01-10 09:00'' ''2024-01-10 09:30'' []
        (both_tokens (token_record ''fresh'' (JStr ''r1''))))) =
     [JDict [(''summary'', JStr ''Standup''),
             (''start'', JDict [(''dateTime'', JStr ''2024-01-10T09:00:00+08:00'')]),
             (''end'', JDict [(''dateTime'', JStr ''2024-01-10T09:30:00+08:00'')])]]
   \<and> submitted (both_tokens (token_record ''fresh'' (JStr ''r1'')))
     (snd (create_event example_sdk ''Trip'' ''2024-01-10'' ''2024-01-12'' []
        (both_tokens (token_record ''fresh'' (JStr ''r1''))))) =
     [JDict [(''summary'', JStr ''Trip''),
             (''start'', JDict [(''date'', JStr ''2024-01-10'')]),
             (''end'', JDict [(''date'', JStr ''2024-01-12'')])]]"
proof -
  let ?w = "both_tokens (token_record ''fresh'' (JStr ''r1''))"
  let ?svc = "build ''calendar'' ''v3''
        \<lparr>token = JStr ''fresh'', refresh_token = JStr ''r1'', token_uri = JStr ''uri'',
         client_id = JStr ''id'', client_secret = JStr ''secret''\<rparr>"
  let ?s = "\<lparr>dt_year = 2024, dt_month = 1, dt_day = 10, dt_hour = 9, dt_minute = 0\<rparr>"
  let ?e = "\<lparr>dt_year = 2024, dt_month = 1, dt_day = 10, dt_hour = 9, dt_minute = 30\<rparr>"
  have blank: "str_contains '' '' ''2024-01-10 09:00''" by code_simp
  have pe: "strptime ''2024-01-10 09:30'' = Inr ?e" by code_simp
  have ws: "iso_wall ?s = ''2024-01-10T09:00:00''"
    by (simp add: iso_wall_def pad4_def pad2_def digit_char_def)
  have we: "iso_wall ?e = ''2024-01-10T09:30:00''"
    by (simp add: iso_wall_def pad4_def pad2_def digit_char_def)
  have off: "format_offset (zone_utcoffset example_sdk key dt) = ''+08:00''" for key dt
  proof -
    have "format_offset 28800 = ''+08:00''"
      by (simp add: format_offset_def pad2_def digit_char_def)
    then show ?thesis by (simp add: example_sdk_def)
  qed
  have d1: "date_text 2024 1 10 = ''2024-01-10''"
    by (simp add: date_text_def pad4_def pad2_def digit_char_def)
  have d2: "date_text 2024 1 12 = ''2024-01-12''"
    by (simp add: date_text_def pad4_def pad2_def digit_char_def)
  note canonical = create_event_payload
    [where g = example_sdk and w = ?w and service = ?svc and ?w1.0 = ?w and sdt = ?s and edt = ?e
       and title = "''Standup''" and description = "[]", THEN conjunct1, THEN mp]
  note timed = create_event_payload
    [where g = example_sdk and w = ?w and service = ?svc and ?w1.0 = ?w
       and start_str = "''2024-01-10 09:00''" and sdt = ?s and end_str = "''2024-01-10 09:30''"
       and edt = ?e and title = "''Standup''" and description = "[]",
     THEN conjunct2, THEN conjunct1, THEN mp]
  note all_day = create_event_payload
    [where g = example_sdk and w = ?w and service = ?svc and ?w1.0 = ?w and title = "''Trip''"
       and description = "[]" and y = 2024 and m = 1 and d = 10 and y' = 2024 and m' = 1 and d' = 12,
     THEN conjunct2, THEN conjunct2, THEN mp]
  have vs: "valid_datetime ?s" and ve: "valid_datetime ?e"
    by (simp_all add: valid_datetime_def days_in_month_def)
  have ts: "timed_text ?s = ''2024-01-10 09:00''" and te: "timed_text ?e = ''2024-01-10 09:30''"
    by (simp_all add: timed_text_def date_text_def pad4_def pad2_def digit_char_def)
  have zero: "strptime ''2024-01-10 09:00'' = Inr ?s"
    using canonical [OF conjI [OF example_gcal_service conjI [OF vs ve]]] by (simp only: ts)
  have one: "submitted ?w
     (snd (create_event example_sdk ''Standup'' ''2024-01-10 09:00'' ''2024-01-10 09:30'' [] ?w)) =
     [JDict [(''summary'', JStr ''Standup''),
             (''start'', JDict [(''dateTime'', JStr ''2024-01-10T09:00:00+08:00'')]),
             (''end'', JDict [(''dateTime'', JStr ''2024-01-10T09:30:00+08:00'')])]]"
    using timed [OF conjI [OF example_gcal_service conjI [OF blank conjI [OF zero pe]]]]
    by (simp add: ws we off del: One_nat_def)
  have two: "submitted ?w
     (snd (create_event example_sdk ''Trip'' ''2024-01-10'' ''2024-01-12'' [] ?w)) =
     [JDict [(''summary'', JStr ''Trip''),
             (''start'', JDict [(''date'', JStr ''2024-01-10'')]),
             (''end'', JDict [(''date'', JStr ''2024-01-12'')])]]"
    using all_day [OF example_gcal_service] by (simp add: d1 d2 del: One_nat_def)
  show ?thesis using one two by simp
qed








end
